theory Spec2Isabelle
  imports Main "HOL-Library.Sublist"
begin

section \<open>The plant catalog\<close>

text \<open>
  \<^verbatim>\<open>interface PlantInfo\<close> of \<^verbatim>\<open>App.tsx\<close>: seven fields, all of them authored data.
\<close>

record PlantInfo =
  name :: string
  watering :: string
  light :: string
  diseases :: "string list"
  benefits :: "string list"
  isPoisonous :: bool
  treatment :: string

definition mustard :: PlantInfo where
  "mustard = \<lparr>
     name = ''Mustard Plant (Brassica juncea)'',
     watering = ''Keep soil consistently moist but not waterlogged. Water when top inch of soil feels dry.'',
     light = ''Full sun to partial shade. Requires 6-8 hours of direct sunlight daily for optimal growth.'',
     diseases = [''Downy mildew'', ''White rust'', ''Alternaria leaf spot'', ''Bacterial leaf spot''],
     benefits = [''Rich in vitamins A, C, and K'', ''High in antioxidants'',
       ''Anti-inflammatory properties'', ''Supports digestive health'', ''Good source of fiber''],
     isPoisonous = False,
     treatment = ''For fungal diseases, remove infected leaves and improve air circulation. Apply copper-based fungicide for severe cases. Ensure proper spacing between plants to prevent disease spread.'' \<rparr>"

definition peaceLily :: PlantInfo where
  "peaceLily = \<lparr>
     name = ''Peace Lily (Spathiphyllum)'',
     watering = ''Keep soil moist but not waterlogged. Water when top inch of soil is dry.'',
     light = ''Thrives in medium to low indirect light. Avoid direct sunlight.'',
     diseases = [''Leaf spot'', ''Root rot'', ''Powdery mildew''],
     benefits = [''Air purifying qualities'', ''Removes toxins like benzene and formaldehyde'',
       ''Increases humidity'', ''Reduces stress''],
     isPoisonous = True,
     treatment = ''For leaf spot, remove affected leaves and improve air circulation. For root rot, reduce watering and repot if necessary.'' \<rparr>"

definition rose :: PlantInfo where
  "rose = \<lparr>
     name = ''Rose (Rosa)'',
     watering = ''Water deeply once a week, more often in hot weather.'',
     light = ''Full sun, at least 6 hours of direct sunlight daily.'',
     diseases = [''Black spot'', ''Powdery mildew'', ''Rust''],
     benefits = [''Beautiful flowers'', ''Symbol of love and beauty'',
       ''Can be used in herbal remedies''],
     isPoisonous = False,
     treatment = ''Prune affected areas and apply fungicides as needed.'' \<rparr>"

definition tulip :: PlantInfo where
  "tulip = \<lparr>
     name = ''Tulip (Tulipa)'',
     watering = ''Water when the top inch of soil is dry, especially during blooming.'',
     light = ''Full sun to partial shade.'',
     diseases = [''Botrytis blight'', ''Tulip fire''],
     benefits = [''Bright and colorful flowers'', ''Easy to grow'', ''Attracts pollinators''],
     isPoisonous = True,
     treatment = ''Remove affected plants and avoid overwatering.'' \<rparr>"

definition fern :: PlantInfo where
  "fern = \<lparr>
     name = ''Fern (Pteridophyta)'',
     watering = ''Keep soil consistently moist but not soggy.'',
     light = ''Prefers indirect light; avoid direct sunlight.'',
     diseases = [''Leaf spot'', ''Root rot''],
     benefits = [''Air purifying qualities'', ''Adds greenery to indoor spaces'',
       ''Low maintenance''],
     isPoisonous = False,
     treatment = ''Remove dead fronds and ensure proper drainage.'' \<rparr>"

definition cactus :: PlantInfo where
  "cactus = \<lparr>
     name = ''Cactus (Cactaceae)'',
     watering = ''Water sparingly; allow soil to dry out completely between waterings.'',
     light = ''Full sun; requires bright light.'',
     diseases = [''Cactus rot'', ''Mealybugs''],
     benefits = [''Low water requirements'', ''Unique appearance'',
       ''Can thrive in dry conditions''],
     isPoisonous = False,
     treatment = ''Remove affected areas and ensure proper drainage.'' \<rparr>"

text \<open>
  \<^verbatim>\<open>const plantDatabase: Record<string, PlantInfo>\<close>: an object literal with six own
  properties, in the order of the source. Reading \<^verbatim>\<open>plantDatabase[key]\<close> is a lookup in the
  association list; a key that is not one of the six reads as \<^verbatim>\<open>undefined\<close>, here \<open>None\<close>.
\<close>

definition plantDatabase_entries :: "(string \<times> PlantInfo) list" where
  "plantDatabase_entries =
     [(''mustard'', mustard), (''peaceLily'', peaceLily), (''rose'', rose),
      (''tulip'', tulip), (''fern'', fern), (''cactus'', cactus)]"

definition plantDatabase :: "string \<rightharpoonup> PlantInfo" where
  "plantDatabase = map_of plantDatabase_entries"


section \<open>Strings\<close>

text \<open>
  A file name is a \<open>string\<close>, one \<open>char\<close> for each character with a code below 256
  (the Latin-1 range). \<^verbatim>\<open>String.prototype.toLowerCase\<close> maps \<open>A\<close>..\<open>Z\<close> (65..90) and the
  Latin-1 capitals (192..222, the multiplication sign 215 apart) to the letter 32 places
  further, and leaves every other character of that range as it is.
\<close>

definition toLowerCase_char :: "char \<Rightarrow> char" where
  "toLowerCase_char c =
     (let n = (of_char c :: nat) in
      if (65 \<le> n \<and> n \<le> 90) \<or> (192 \<le> n \<and> n \<le> 222 \<and> n \<noteq> 215)
      then char_of (n + 32) else c)"

definition toLowerCase :: "string \<Rightarrow> string" where
  "toLowerCase s = map toLowerCase_char s"

text \<open>
  \<^verbatim>\<open>s.includes(k)\<close>: does \<open>k\<close> occur in \<open>s\<close> as a contiguous run of characters? The search
  tries every start position from the left; the empty string occurs everywhere.
\<close>

fun includes_str :: "string \<Rightarrow> string \<Rightarrow> bool" where
  "includes_str [] k = (k = [])"
| "includes_str (c # cs) k = (prefix k (c # cs) \<or> includes_str cs k)"


section \<open>The identification stub\<close>

text \<open>
  Lines 167 to 183 of \<^verbatim>\<open>identifyPlant\<close>: the file name is lower-cased and run through the
  chain of \<^verbatim>\<open>if\<close>/\<^verbatim>\<open>else if\<close> tests; \<^verbatim>\<open>plantType\<close> starts as \<^verbatim>\<open>'unknown'\<close>.
\<close>

definition identify :: "string \<Rightarrow> string" where
  "identify n =
     (let fileName = toLowerCase n in
      if includes_str fileName ''mustard'' then ''mustard''
      else if includes_str fileName ''peace'' \<or> includes_str fileName ''lily'' then ''peaceLily''
      else if includes_str fileName ''rose'' then ''rose''
      else if includes_str fileName ''tulip'' then ''tulip''
      else if includes_str fileName ''fern'' then ''fern''
      else if includes_str fileName ''cactus'' then ''cactus''
      else ''unknown'')"

text \<open>
  The same function in the words of the specification: a fixed, ordered list of rules, each
  a set of substrings with a key, and the first rule one of whose substrings occurs in the
  lower-cased name gives the key. Occurrence is \<^const>\<open>sublist\<close>:
  \<open>sublist k n\<close> holds when \<open>n = ps @ k @ ss\<close> for some \<open>ps\<close> and \<open>ss\<close>.
\<close>

definition rules :: "(string list \<times> string) list" where
  "rules =
     [([''mustard''], ''mustard''),
      ([''peace'', ''lily''], ''peaceLily''),
      ([''rose''], ''rose''),
      ([''tulip''], ''tulip''),
      ([''fern''], ''fern''),
      ([''cactus''], ''cactus'')]"

fun first_match :: "(string list \<times> string) list \<Rightarrow> string \<Rightarrow> string" where
  "first_match [] n = ''unknown''"
| "first_match ((ks, key) # rs) n =
     (if list_ex (\<lambda>k. sublist k n) ks then key else first_match rs n)"

definition identify_spec :: "string \<Rightarrow> string" where
  "identify_spec n = first_match rules (toLowerCase n)"

definition known_keywords :: "string list" where
  "known_keywords = concat (map fst rules)"


section \<open>The component state\<close>

text \<open>
  A \<^verbatim>\<open>File\<close> is read only through its \<^verbatim>\<open>name\<close>. A \<^verbatim>\<open>MediaStream\<close> is the list of its
  tracks, a track an identifier. The \<^verbatim>\<open><video>\<close> element is read and written only through
  \<^verbatim>\<open>srcObject\<close>. A thrown or rejected value is its description.
\<close>

record File =
  file_name :: string

type_synonym track = nat
type_synonym MediaStream = "track list"
type_synonym exn = string

record video =
  srcObject :: "MediaStream option"

text \<open>
  The first five fields are the \<^verbatim>\<open>useState\<close> cells of \<^verbatim>\<open>App\<close>; \<open>None\<close> is \<^verbatim>\<open>null\<close>.
  \<open>videoRef\<close> is \<^verbatim>\<open>videoRef.current\<close>. The remaining fields are what the component leaves
  in its environment: \<open>identifying\<close>, the \<^verbatim>\<open>plantType\<close> of every call of \<^verbatim>\<open>identifyPlant\<close>
  that is suspended at its \<^verbatim>\<open>await\<close>, oldest first; \<open>reading\<close>, \<open>requesting\<close> and \<open>capturing\<close>,
  the numbers of file readers, of \<^verbatim>\<open>getUserMedia\<close> requests and of
  \<^verbatim>\<open>fetch(imageDataUrl)\<close> chains that have not settled yet; \<open>alerts\<close> and \<open>console\<close>, what
  \<^verbatim>\<open>alert\<close> and \<^verbatim>\<open>console.error\<close> were called with; \<open>stopped\<close>, the tracks on which
  \<^verbatim>\<open>stop()\<close> was called.
\<close>

record state =
  selectedImage :: "string option"
  loading :: bool
  isStreaming :: bool
  plantInfo :: "PlantInfo option"
  error :: "string option"
  videoRef :: "video option"
  identifying :: "string list"
  reading :: nat
  requesting :: nat
  capturing :: nat
  alerts :: "string list"
  console :: "(string \<times> exn) list"
  stopped :: "track list"

definition init :: state where
  "init = \<lparr> selectedImage = None, loading = False, isStreaming = False, plantInfo = None,
     error = None, videoRef = None, identifying = [], reading = 0, requesting = 0,
     capturing = 0, alerts = [], console = [], stopped = [] \<rparr>"


section \<open>The camera\<close>

text \<open>
  \<^verbatim>\<open>startCamera\<close> from the point where the awaited \<^verbatim>\<open>getUserMedia\<close> call has settled:
  the argument is \<open>Inr stream\<close> when it resolved and \<open>Inl err\<close> when it rejected or threw.
  \<open>startCamera_try\<close> is the \<^verbatim>\<open>try\<close> block, whose \<open>Inl\<close> is an exception leaving the block;
  \<open>startCamera\<close> adds the \<^verbatim>\<open>catch\<close> clause, and its \<open>Inl\<close> would be an exception that reaches
  the caller.
\<close>

definition startCamera_try :: "exn + MediaStream \<Rightarrow> state \<Rightarrow> exn + state" where
  "startCamera_try settled s =
     (case settled of
        Inl err \<Rightarrow> Inl err
      | Inr stream \<Rightarrow>
          (case videoRef s of
             None \<Rightarrow> Inr s
           | Some v \<Rightarrow> Inr (s\<lparr>videoRef := Some (v\<lparr>srcObject := Some stream\<rparr>), isStreaming := True\<rparr>)))"

definition camera_alert :: string where
  "camera_alert = ''Unable to access camera. Please ensure you've granted camera permissions.''"

definition startCamera :: "exn + MediaStream \<Rightarrow> state \<Rightarrow> exn + state" where
  "startCamera settled s =
     (case startCamera_try settled s of
        Inr s' \<Rightarrow> Inr s'
      | Inl err \<Rightarrow>
          Inr (s\<lparr>console := console s @ [(''Error accessing camera:'', err)],
                 alerts := alerts s @ [camera_alert]\<rparr>))"

definition stopCamera :: "state \<Rightarrow> state" where
  "stopCamera s =
     (case videoRef s of
        None \<Rightarrow> s
      | Some v \<Rightarrow>
          (case srcObject v of
             None \<Rightarrow> s
           | Some stream \<Rightarrow>
               s\<lparr>stopped := stopped s @ stream,
                 videoRef := Some (v\<lparr>srcObject := None\<rparr>),
                 isStreaming := False\<rparr>))"

text \<open>The stream that \<^verbatim>\<open>stopCamera\<close> would release, if there is one.\<close>

definition active_stream :: "state \<Rightarrow> MediaStream option" where
  "active_stream s = (case videoRef s of None \<Rightarrow> None | Some v \<Rightarrow> srcObject v)"


section \<open>Identification\<close>

text \<open>
  \<^verbatim>\<open>identifyPlant\<close> is an \<^verbatim>\<open>async\<close> function with one \<^verbatim>\<open>await\<close>. \<open>identifyPlant_start\<close> is
  what runs when it is called, up to the \<^verbatim>\<open>await\<close>: the two setters and the computation of
  \<^verbatim>\<open>plantType\<close>, which the suspended call keeps. \<open>identifyPlant_resume\<close> is what runs when the
  delay of 1500 ms has elapsed, the \<^verbatim>\<open>finally\<close> clause included, on the state of that moment.
  \<open>identifyPlant_catch\<close> is the \<^verbatim>\<open>catch\<close> clause followed by \<^verbatim>\<open>finally\<close>; nothing in the
  \<^verbatim>\<open>try\<close> block throws on a \<^verbatim>\<open>File\<close>, and the promise of the delay never rejects.
\<close>

definition identifyPlant_start :: "File \<Rightarrow> state \<Rightarrow> state" where
  "identifyPlant_start f s =
     s\<lparr>loading := True, error := None,
       identifying := identifying s @ [identify (file_name f)]\<rparr>"

definition unable_message :: string where
  "unable_message = ''Unable to identify plant. Please ensure the image is clear and try again.''"

definition identifyPlant_resume :: "string \<Rightarrow> state \<Rightarrow> state" where
  "identifyPlant_resume plantType s =
     (if plantType = ''unknown''
      then s\<lparr>error := Some unable_message, plantInfo := None, loading := False\<rparr>
      else s\<lparr>plantInfo := plantDatabase plantType, loading := False\<rparr>)"

definition identifyPlant_catch :: "state \<Rightarrow> state" where
  "identifyPlant_catch s =
     s\<lparr>error := Some ''An error occurred while identifying the plant. Please try again.'',
       plantInfo := None, loading := False\<rparr>"

text \<open>
  \<^verbatim>\<open>captureImage\<close>. The argument is what \<^verbatim>\<open>canvas.toDataURL\<close> returns for the drawn frame,
  \<open>None\<close> when \<^verbatim>\<open>getContext('2d')\<close> gave no context. The identification of
  \<^verbatim>\<open>capture.jpg\<close> starts later, when the \<^verbatim>\<open>fetch\<close> chain has produced the blob.
\<close>

definition captureImage :: "string option \<Rightarrow> state \<Rightarrow> state" where
  "captureImage frame s =
     (case videoRef s of
        None \<Rightarrow> s
      | Some v \<Rightarrow>
          (case frame of
             None \<Rightarrow> s
           | Some imageDataUrl \<Rightarrow>
               (let s1 = stopCamera (s\<lparr>selectedImage := Some imageDataUrl\<rparr>)
                in s1\<lparr>capturing := Suc (capturing s1)\<rparr>)))"

definition capture_file :: File where
  "capture_file = \<lparr> file_name = ''capture.jpg'' \<rparr>"

text \<open>
  \<^verbatim>\<open>handleImageUpload\<close>. The argument is \<^verbatim>\<open>event.target.files\<close>, \<open>None\<close> when it is
  \<^verbatim>\<open>null\<close>; \<open>first_file\<close> is \<^verbatim>\<open>files?.[0]\<close>.
\<close>

definition first_file :: "File list option \<Rightarrow> File option" where
  "first_file files = (case files of None \<Rightarrow> None | Some [] \<Rightarrow> None | Some (f # _) \<Rightarrow> Some f)"

definition handleImageUpload :: "File list option \<Rightarrow> state \<Rightarrow> state" where
  "handleImageUpload files s =
     (case first_file files of
        None \<Rightarrow> s
      | Some f \<Rightarrow> identifyPlant_start f (s\<lparr>reading := Suc (reading s)\<rparr>))"


section \<open>Events\<close>

text \<open>
  The component runs one handler or continuation at a time, to its end, and React commits
  the new state before the next one runs. The \<^verbatim>\<open><video>\<close> element is rendered under
  \<^verbatim>\<open>isStreaming &&\<close>, so a commit leaves \<^verbatim>\<open>videoRef.current\<close> set exactly when
  \<open>isStreaming\<close> holds: a new element has no \<^verbatim>\<open>srcObject\<close>, an unmounted one is dropped.
\<close>

definition render :: "state \<Rightarrow> state" where
  "render s =
     (if isStreaming s
      then (case videoRef s of None \<Rightarrow> s\<lparr>videoRef := Some \<lparr>srcObject = None\<rparr>\<rparr> | Some v \<Rightarrow> s)
      else s\<lparr>videoRef := None\<rparr>)"

text \<open>
  What can happen to the component:
  the file input changes; a file reader ends with its result; the delay of the \<open>i\<close>-th
  suspended identification elapses; the scan button is clicked (its handler is
  \<^verbatim>\<open>isStreaming ? captureImage : startCamera\<close>); a \<^verbatim>\<open>getUserMedia\<close> request settles; the
  close button is clicked; the blob of a captured frame arrives.
\<close>

datatype event =
  FileInputChange "File list option"
| ReaderLoadEnd "string option"
| DelayElapsed nat
| ScanClick "string option"
| GetUserMediaSettled "exn + MediaStream"
| CloseCameraClick
| CaptureBlobReady

fun handle :: "event \<Rightarrow> state \<Rightarrow> state" where
  "handle (FileInputChange files) s = handleImageUpload files s"
| "handle (ReaderLoadEnd result) s =
     (if 0 < reading s then s\<lparr>selectedImage := result, reading := reading s - 1\<rparr> else s)"
| "handle (DelayElapsed i) s =
     (if i < length (identifying s)
      then identifyPlant_resume (identifying s ! i)
             (s\<lparr>identifying := take i (identifying s) @ drop (Suc i) (identifying s)\<rparr>)
      else s)"
| "handle (ScanClick frame) s =
     (if isStreaming s then captureImage frame s else s\<lparr>requesting := Suc (requesting s)\<rparr>)"
| "handle (GetUserMediaSettled settled) s =
     (if 0 < requesting s
      then (case startCamera settled (s\<lparr>requesting := requesting s - 1\<rparr>) of
              Inr s' \<Rightarrow> s'
            | Inl err \<Rightarrow> s\<lparr>requesting := requesting s - 1\<rparr>)
      else s)"
| "handle CloseCameraClick s = stopCamera s"
| "handle CaptureBlobReady s =
     (if 0 < capturing s
      then identifyPlant_start capture_file (s\<lparr>capturing := capturing s - 1\<rparr>)
      else s)"

definition step :: "event \<Rightarrow> state \<Rightarrow> state" where
  "step e s = render (handle e s)"

fun run :: "event list \<Rightarrow> state \<Rightarrow> state" where
  "run [] s = s"
| "run (e # es) s = run es (step e s)"

text \<open>
  Does the event start an identification request in this state? A run is \<open>one_at_a_time\<close>
  when every request is started while no other one is suspended.
\<close>

fun starts_identification :: "event \<Rightarrow> state \<Rightarrow> bool" where
  "starts_identification (FileInputChange files) s = (first_file files \<noteq> None)"
| "starts_identification CaptureBlobReady s = (0 < capturing s)"
| "starts_identification _ s = False"

fun one_at_a_time :: "event list \<Rightarrow> state \<Rightarrow> bool" where
  "one_at_a_time [] s = True"
| "one_at_a_time (e # es) s =
     ((starts_identification e s \<longrightarrow> identifying s = []) \<and> one_at_a_time es (step e s))"

text \<open>Files and runs used as examples.\<close>

definition my_rose :: File where
  "my_rose = \<lparr> file_name = ''my_rose.jpg'' \<rparr>"

definition unknown_plant :: File where
  "unknown_plant = \<lparr> file_name = ''unknown_plant.png'' \<rparr>"

definition upload :: "File \<Rightarrow> event" where
  "upload f = FileInputChange (Some [f])"

definition second_upload_run :: "event list" where
  "second_upload_run = [upload my_rose, DelayElapsed 0, upload unknown_plant]"

definition overlapping_run :: "event list" where
  "overlapping_run = [upload unknown_plant, upload my_rose, DelayElapsed 0, DelayElapsed 0]"

definition sequential_run :: "event list" where
  "sequential_run = [upload my_rose, DelayElapsed 0, upload unknown_plant, DelayElapsed 0]"

text \<open>A state in which the camera streams two tracks.\<close>

definition streaming :: state where
  "streaming = init\<lparr>isStreaming := True, videoRef := Some \<lparr>srcObject = Some [0, 1]\<rparr>\<rparr>"

text \<open>
  Two properties of a state that every step keeps. \<open>quiet\<close>: the loading flag and an error
  message are not there together. \<open>orderly\<close>: at most one identification is suspended, no
  error message is there while it is, and a profile and an error message are not there
  together once it is over.
\<close>

definition quiet :: "state \<Rightarrow> bool" where
  "quiet s \<longleftrightarrow> \<not> (loading s \<and> error s \<noteq> None)"

definition orderly :: "state \<Rightarrow> bool" where
  "orderly s \<longleftrightarrow>
     length (identifying s) \<le> 1 \<and>
     (identifying s \<noteq> [] \<longrightarrow> error s = None) \<and>
     (identifying s = [] \<longrightarrow> \<not> (plantInfo s \<noteq> None \<and> error s \<noteq> None))"


section \<open>The identification stub and the catalog\<close>

lemma includes_str_sublist: "includes_str s k \<longleftrightarrow> sublist k s"
  by (induction s) (simp_all add: sublist_Cons_right)

lemma identify_range:
  "identify n \<in> {''mustard'', ''peaceLily'', ''rose'', ''tulip'', ''fern'', ''cactus'', ''unknown''}"
  by (simp add: identify_def Let_def)

lemma identify_unknown:
  "identify n = ''unknown'' \<longleftrightarrow> (\<forall>k \<in> set known_keywords. \<not> sublist k (toLowerCase n))"
  by (simp add: identify_def Let_def known_keywords_def rules_def includes_str_sublist)

text \<open>
  C1. For every file name, \<open>identify\<close> lower-cases the name and applies the fixed, ordered
  rule list, the first matching rule winning: a name containing "mustard" gives \<open>mustard\<close>;
  else one containing "peace" or "lily" gives \<open>peaceLily\<close>; else "rose" gives \<open>rose\<close>; else
  "tulip" gives \<open>tulip\<close>; else "fern" gives \<open>fern\<close>; else "cactus" gives \<open>cactus\<close>; and a name
  containing none of them gives \<open>unknown\<close>. The chain of tests of the source computes
  what the rule list of the specification prescribes.
\<close>

theorem identify_first_match: "identify n = identify_spec n"
  by (simp add: identify_def identify_spec_def rules_def includes_str_sublist Let_def)

theorem identify_first_match_witness:
  "identify ''My_ROSE_and_cactus.JPG'' = ''rose'' \<and>
   identify_spec ''My_ROSE_and_cactus.JPG'' = ''rose''"
proof -
  have "identify ''My_ROSE_and_cactus.JPG'' = ''rose''" by code_simp
  with identify_first_match [of "''My_ROSE_and_cactus.JPG''"] show ?thesis by simp
qed

text \<open>
  C5. For each of the six catalog keys, the lookup in the catalog returns a profile whose
  \<open>isPoisonous\<close> flag is the authored one: true for \<open>peaceLily\<close> and \<open>tulip\<close>, false for
  \<open>mustard\<close>, \<open>rose\<close>, \<open>fern\<close> and \<open>cactus\<close>.
\<close>

theorem catalog_isPoisonous:
  "map_option isPoisonous (plantDatabase ''mustard'') = Some False \<and>
   map_option isPoisonous (plantDatabase ''peaceLily'') = Some True \<and>
   map_option isPoisonous (plantDatabase ''rose'') = Some False \<and>
   map_option isPoisonous (plantDatabase ''tulip'') = Some True \<and>
   map_option isPoisonous (plantDatabase ''fern'') = Some False \<and>
   map_option isPoisonous (plantDatabase ''cactus'') = Some False"
  by (simp add: plantDatabase_def plantDatabase_entries_def mustard_def peaceLily_def rose_def
      tulip_def fern_def cactus_def)

text \<open>
  C9. For every file name, a key other than \<open>unknown\<close> that \<open>identify\<close> returns is a key of
  the catalog: the lookup that \<^verbatim>\<open>identifyPlant\<close> makes on it finds a profile, so the resumed
  call sets a result and leaves the error as it was.
\<close>

theorem identify_in_catalog:
  "identify n \<noteq> ''unknown'' \<longrightarrow>
     identify n \<in> dom plantDatabase \<and>
     plantInfo (identifyPlant_resume (identify n) s) \<noteq> None \<and>
     error (identifyPlant_resume (identify n) s) = error s"
  using identify_range [of n]
  by (auto simp: plantDatabase_def plantDatabase_entries_def identifyPlant_resume_def)

theorem identify_in_catalog_witness:
  "identify ''my_rose.jpg'' \<noteq> ''unknown'' \<and>
   identify ''my_rose.jpg'' \<in> dom plantDatabase \<and>
   plantInfo (identifyPlant_resume (identify ''my_rose.jpg'') init) \<noteq> None"
proof -
  have "identify ''my_rose.jpg'' \<noteq> ''unknown''" by code_simp
  with identify_in_catalog [of "''my_rose.jpg''" init] show ?thesis by simp
qed


section \<open>What the camera and a commit leave alone\<close>

lemma stopCamera_fields [simp]:
  "loading (stopCamera s) = loading s" "error (stopCamera s) = error s"
  "plantInfo (stopCamera s) = plantInfo s" "identifying (stopCamera s) = identifying s"
  "capturing (stopCamera s) = capturing s" "selectedImage (stopCamera s) = selectedImage s"
  by (simp_all add: stopCamera_def split: option.splits)

lemma render_loading [simp]: "loading (render s) = loading s"
  and render_error [simp]: "error (render s) = error s"
  and render_plantInfo [simp]: "plantInfo (render s) = plantInfo s"
  and render_identifying [simp]: "identifying (render s) = identifying s"
  and render_capturing [simp]: "capturing (render s) = capturing s"
  and render_selectedImage [simp]: "selectedImage (render s) = selectedImage s"
  by (simp_all add: render_def split: option.splits)

lemma startCamera_fields:
  "startCamera settled s = Inr s' \<Longrightarrow>
     loading s' = loading s \<and> error s' = error s \<and> plantInfo s' = plantInfo s \<and>
     identifying s' = identifying s \<and> capturing s' = capturing s"
  by (auto simp: startCamera_def startCamera_try_def split: sum.splits option.splits)

lemma captureImage_fields [simp]:
  "loading (captureImage frame s) = loading s" "error (captureImage frame s) = error s"
  "plantInfo (captureImage frame s) = plantInfo s"
  "identifying (captureImage frame s) = identifying s"
  by (simp_all add: captureImage_def Let_def split: option.splits)


section \<open>Identification requests\<close>

text \<open>
  C3, as the code has it. Starting an identification request sets the loading flag and
  clears the prior error before the request resolves, whatever the prior state was; the
  prior result is not cleared at the start: it stays as it is until the request resolves.
\<close>

theorem identifyPlant_start_clears_error:
  "loading (identifyPlant_start f s) \<and>
   error (identifyPlant_start f s) = None \<and>
   plantInfo (identifyPlant_start f s) = plantInfo s"
  by (simp add: identifyPlant_start_def)

text \<open>
  C3 as stated fails: after \<^verbatim>\<open>my_rose.jpg\<close> has been uploaded and identified, a request
  started for \<^verbatim>\<open>unknown_plant.png\<close> leaves the Rose profile in \<open>plantInfo\<close>.
\<close>

theorem identifyPlant_start_keeps_result:
  "plantInfo (identifyPlant_start unknown_plant (run [upload my_rose, DelayElapsed 0] init))
     = Some rose"
  by code_simp

text \<open>
  C4. For every file whose lower-cased name contains none of the keywords, the request
  ends, when its delay has elapsed, with the result cleared, the loading flag off and the
  error message "Unable to identify plant. Please ensure the image is clear and try again.":
  whatever the state \<open>s\<close> in which the suspended call resumes, and so for an upload in any
  state \<open>s\<close> followed by the end of the delay of the request it started.
\<close>

theorem unknown_file_fails:
  assumes "\<forall>k \<in> set known_keywords. \<not> sublist k (toLowerCase (file_name f))"
  shows "identifyPlant_resume (identify (file_name f)) s =
           s\<lparr>error := Some ''Unable to identify plant. Please ensure the image is clear and try again.'',
             plantInfo := None, loading := False\<rparr>
         \<and> error (run [upload f, DelayElapsed (length (identifying s))] s) =
             Some ''Unable to identify plant. Please ensure the image is clear and try again.''
         \<and> plantInfo (run [upload f, DelayElapsed (length (identifying s))] s) = None
         \<and> \<not> loading (run [upload f, DelayElapsed (length (identifying s))] s)"
proof -
  from assms have unknown: "identify (file_name f) = ''unknown''"
    by (simp only: identify_unknown)
  have resumed: "identifyPlant_resume ''unknown'' s' =
      s'\<lparr>error := Some unable_message, plantInfo := None, loading := False\<rparr>" for s'
    by (simp add: identifyPlant_resume_def)
  have started: "identifying (handle (upload f) s) = identifying s @ [''unknown'']"
    by (simp add: upload_def handleImageUpload_def first_file_def identifyPlant_start_def unknown)
  have "run [upload f, DelayElapsed (length (identifying s))] s =
      render (identifyPlant_resume ''unknown''
        (render (handle (upload f) s)\<lparr>identifying := identifying s\<rparr>))"
    by (simp add: step_def started render_identifying)
  with unknown resumed show ?thesis
    by (simp add: unable_message_def)
qed

theorem unknown_file_fails_witness:
  "identifyPlant_resume (identify ''unknown_plant.png'') (identifyPlant_start unknown_plant init) =
     init\<lparr>error := Some unable_message, identifying := [''unknown'']\<rparr> \<and>
   error (run [upload unknown_plant, DelayElapsed 0] init) =
     Some ''Unable to identify plant. Please ensure the image is clear and try again.'' \<and>
   plantInfo (run [upload unknown_plant, DelayElapsed 0] init) = None \<and>
   \<not> loading (run [upload unknown_plant, DelayElapsed 0] init)"
proof -
  have none: "\<forall>k \<in> set known_keywords. \<not> sublist k (toLowerCase (file_name unknown_plant))"
    by code_simp
  have start: "identifyPlant_start unknown_plant init =
      init\<lparr>loading := True, identifying := [''unknown'']\<rparr>"
    by code_simp
  have name: "file_name unknown_plant = ''unknown_plant.png''"
    by (simp add: unknown_plant_def)
  have "identifying init = []"
    by (simp add: init_def)
  with name start unknown_file_fails [OF none, of init]
    unknown_file_fails [OF none, of "identifyPlant_start unknown_plant init"]
  show ?thesis
    by (simp add: unable_message_def init_def)
qed

text \<open>
  C6. The identification step leaves the image preview as it is, also when the request
  resolves to \<open>unknown\<close>: of the state of the component, the resumed call (and the
  \<^verbatim>\<open>catch\<close> path) writes \<open>loading\<close>, \<open>error\<close> and \<open>plantInfo\<close> only, and the start of a call
  \<open>loading\<close> and \<open>error\<close> only, next to the record of the suspended call.
\<close>

theorem identifyPlant_frame:
  "selectedImage (identifyPlant_resume ''unknown'' s) = selectedImage s \<and>
   (identifyPlant_resume plantType s)
      \<lparr>loading := loading s, error := error s, plantInfo := plantInfo s\<rparr> = s \<and>
   (identifyPlant_catch s)
      \<lparr>loading := loading s, error := error s, plantInfo := plantInfo s\<rparr> = s \<and>
   (identifyPlant_start f s)
      \<lparr>loading := loading s, error := error s, identifying := identifying s\<rparr> = s"
  by (simp add: identifyPlant_resume_def identifyPlant_catch_def identifyPlant_start_def)

text \<open>
  C10. The upload handler called with no file selected, the file list being absent or
  empty, leaves the whole state unchanged: no identification is started, and loading,
  error, result and image preview keep their values.
\<close>

theorem handleImageUpload_no_file:
  "files = None \<or> files = Some [] \<Longrightarrow> handleImageUpload files s = s"
  by (auto simp: handleImageUpload_def first_file_def)

theorem handleImageUpload_no_file_witness:
  "handleImageUpload None init = init \<and> handleImageUpload (Some []) init = init"
  using handleImageUpload_no_file [of None init] handleImageUpload_no_file [of "Some []" init]
  by simp


section \<open>The camera\<close>

text \<open>
  C7. For every state, calling \<open>stopCamera\<close> twice in a row gives the state that calling it
  once gives, and so do two clicks on the close button; in a state with no active stream
  \<open>stopCamera\<close> changes nothing.
\<close>

theorem stopCamera_idempotent:
  "stopCamera (stopCamera s) = stopCamera s \<and>
   step CloseCameraClick (step CloseCameraClick s) = step CloseCameraClick s \<and>
   (active_stream s = None \<longrightarrow> stopCamera s = s)"
  by (auto simp: step_def render_def stopCamera_def active_stream_def split: option.splits)

theorem stopCamera_idempotent_witness:
  "active_stream init = None \<and> stopCamera init = init \<and>
   stopCamera (stopCamera streaming) =
     init\<lparr>videoRef := Some \<lparr>srcObject = None\<rparr>, stopped := [0, 1]\<rparr>"
proof -
  have once: "stopCamera streaming =
      init\<lparr>videoRef := Some \<lparr>srcObject = None\<rparr>, stopped := [0, 1]\<rparr>"
    by (simp add: stopCamera_def streaming_def init_def)
  have "active_stream init = None"
    by (simp add: active_stream_def init_def)
  with once stopCamera_idempotent [of init] stopCamera_idempotent [of streaming]
  show ?thesis by simp
qed

text \<open>
  C8. When the \<^verbatim>\<open>getUserMedia\<close> request of \<open>startCamera\<close> fails, the call returns normally
  (no exception reaches its caller), the alert is shown and the failure logged, and every
  field of the component state is as before: in particular \<open>isStreaming\<close> is not set.
\<close>

theorem startCamera_failure:
  "startCamera (Inl err) s =
     Inr (s\<lparr>console := console s @ [(''Error accessing camera:'', err)],
            alerts := alerts s @
              [''Unable to access camera. Please ensure you've granted camera permissions.'']\<rparr>)"
  by (simp add: startCamera_def startCamera_try_def camera_alert_def)


section \<open>Reachable states\<close>

lemma handle_quiet: "quiet s \<Longrightarrow> quiet (handle e s)"
proof (cases e)
  case (GetUserMediaSettled settled)
  then show "quiet s \<Longrightarrow> quiet (handle e s)"
    by (auto simp: quiet_def split: sum.splits dest!: startCamera_fields)
qed (auto simp: quiet_def handleImageUpload_def identifyPlant_start_def identifyPlant_resume_def
      split: option.splits)

lemma step_quiet: "quiet s \<Longrightarrow> quiet (step e s)"
  using handle_quiet [of s e] by (simp add: step_def quiet_def)

lemma run_quiet: "quiet s \<Longrightarrow> quiet (run es s)"
  by (induction es arbitrary: s) (simp_all add: step_quiet)

lemma handle_orderly:
  assumes "orderly s" and "starts_identification e s \<longrightarrow> identifying s = []"
  shows "orderly (handle e s)"
proof (cases e)
  case (FileInputChange files)
  with assms show ?thesis
    by (auto simp: orderly_def handleImageUpload_def identifyPlant_start_def split: option.splits)
next
  case (ReaderLoadEnd result)
  with assms show ?thesis by (simp add: orderly_def)
next
  case (DelayElapsed i)
  show ?thesis
  proof (cases "i < length (identifying s)")
    case True
    with assms obtain plantType where "identifying s = [plantType]" and "i = 0"
      by (cases "identifying s") (auto simp: orderly_def)
    with assms DelayElapsed show ?thesis
      by (simp add: orderly_def identifyPlant_resume_def)
  next
    case False
    with assms DelayElapsed show ?thesis by simp
  qed
next
  case (ScanClick frame)
  with assms show ?thesis by (simp add: orderly_def)
next
  case (GetUserMediaSettled settled)
  with assms show ?thesis
    by (auto simp: orderly_def split: sum.splits dest!: startCamera_fields)
next
  case CloseCameraClick
  with assms show ?thesis by (simp add: orderly_def)
next
  case CaptureBlobReady
  with assms show ?thesis
    by (auto simp: orderly_def identifyPlant_start_def)
qed

lemma step_orderly:
  "orderly s \<Longrightarrow> starts_identification e s \<longrightarrow> identifying s = [] \<Longrightarrow> orderly (step e s)"
  using handle_orderly [of s e] by (simp add: step_def orderly_def)

lemma run_orderly: "orderly s \<Longrightarrow> one_at_a_time es s \<Longrightarrow> orderly (run es s)"
  by (induction es arbitrary: s) (simp_all add: step_orderly)

lemma init_quiet: "quiet init"
  by (simp add: quiet_def init_def)

lemma init_orderly: "orderly init"
  by (simp add: orderly_def init_def)

text \<open>
  C2, as the code has it. In every state reached from the initial one by any sequence of
  events, the loading flag and an error message are never there together; and when no
  identification request of the sequence was started while another one was pending, a
  result and an error message are never there together. (A result may stay next to the
  loading flag: see below.)
\<close>

theorem reachable_exclusion:
  "\<not> (loading (run es init) \<and> error (run es init) \<noteq> None) \<and>
   (one_at_a_time es init \<longrightarrow>
      \<not> (plantInfo (run es init) \<noteq> None \<and> error (run es init) \<noteq> None))"
proof
  from run_quiet [OF init_quiet, of es]
  show "\<not> (loading (run es init) \<and> error (run es init) \<noteq> None)"
    by (simp add: quiet_def)
next
  show "one_at_a_time es init \<longrightarrow>
      \<not> (plantInfo (run es init) \<noteq> None \<and> error (run es init) \<noteq> None)"
  proof
    assume "one_at_a_time es init"
    from run_orderly [OF init_orderly this]
    show "\<not> (plantInfo (run es init) \<noteq> None \<and> error (run es init) \<noteq> None)"
      by (cases "identifying (run es init)") (auto simp: orderly_def)
  qed
qed

theorem reachable_exclusion_witness:
  "one_at_a_time sequential_run init \<and>
   \<not> (loading (run sequential_run init) \<and> error (run sequential_run init) \<noteq> None) \<and>
   \<not> (plantInfo (run sequential_run init) \<noteq> None \<and> error (run sequential_run init) \<noteq> None)"
proof -
  have "one_at_a_time sequential_run init" by code_simp
  with reachable_exclusion [of sequential_run] show ?thesis by simp
qed

text \<open>
  C2 as stated fails twice. After \<^verbatim>\<open>my_rose.jpg\<close> has been identified, the upload of a second
  file turns the loading flag on while the Rose profile is still the result. And when
  \<^verbatim>\<open>my_rose.jpg\<close> is uploaded while the request for \<^verbatim>\<open>unknown_plant.png\<close> is pending, the
  first request leaves its error message and the second one, which does not clear it, its
  result.
\<close>

theorem exclusion_fails:
  "loading (run second_upload_run init) \<and> plantInfo (run second_upload_run init) = Some rose \<and>
   error (run overlapping_run init) = Some unable_message \<and>
   plantInfo (run overlapping_run init) = Some rose"
  by code_simp

end
